theory Spec2Isabelle
  imports Main
begin

section \<open>JavaScript values, objects and errors\<close>

text \<open>
  The store \<open>AsyncStore\<close> of \<open>react-with-use/src/asyncStore.ts\<close> wraps the browser's IndexedDB
  engine. Records are plain objects whose properties hold primitive values; numbers are
  modelled by integers and strings by ASCII character lists.
\<close>

datatype jsval = JUndefined | JNull | JBool bool | JNum int | JStr string

text \<open>
  A JavaScript object is the list of its own enumerable properties in the order in which
  \<open>Object.keys\<close> and \<open>Object.entries\<close> enumerate them (insertion order, for names
  that are not array indices); property names are pairwise distinct in a well-formed
  object.
\<close>

type_synonym 'v obj = "(string \<times> 'v) list"

type_synonym resource = "jsval obj"

definition Object_keys :: "'v obj \<Rightarrow> string list" where
  "Object_keys ob = map fst ob"

definition Object_entries :: "'v obj \<Rightarrow> (string \<times> 'v) list" where
  "Object_entries ob = ob"

text \<open>\<open>{...acc, [k]: v}\<close>: a copy of \<open>acc\<close> in which property \<open>k\<close> holds \<open>v\<close>.\<close>

fun obj_set :: "'v obj \<Rightarrow> string \<Rightarrow> 'v \<Rightarrow> 'v obj" where
  "obj_set [] k v = [(k, v)]"
| "obj_set ((k', v') # kvs) k v =
     (if k' = k then (k, v) # kvs else (k', v') # obj_set kvs k v)"

text \<open>
  Everything that the code throws or rejects with. \<open>DOMException n\<close> is the engine's
  exception of name \<open>n\<close> and \<open>TypeError\<close> the built-in one (their implementation-defined
  message texts are left out). \<open>BaseError\<close> and its three subclasses are the classes at the
  end of the source file. \<open>NonError r\<close> is a thrown value that is not an \<open>Error\<close> object,
  described by what the code can observe of it: \<open>r\<close> is the result of its \<open>toString()\<close>,
  \<open>None\<close> for \<open>null\<close> and \<open>undefined\<close>, where that call itself throws a \<open>TypeError\<close>.
\<close>

datatype js_error =
    Error string
  | TypeError
  | DOMException string
  | BaseError string
  | NoDbFoundError
  | OpeningDbError
  | UnknownError
  | NonError "string option"

fun instanceof_Error :: "js_error \<Rightarrow> bool" where
  "instanceof_Error (NonError r) = False"
| "instanceof_Error e = True"


fun error_name :: "js_error \<Rightarrow> string" where
  "error_name (Error m) = ''Error''"
| "error_name TypeError = ''TypeError''"
| "error_name (DOMException n) = n"
| "error_name (NonError r) = []"
| "error_name e = ''AsyncStore''"

fun error_message :: "js_error \<Rightarrow> string" where
  "error_message (Error m) = m"
| "error_message (BaseError m) = m"
| "error_message NoDbFoundError = ''Failed, no db found''"
| "error_message OpeningDbError = ''Failed while opening indexedDB.''"
| "error_message UnknownError = ''Found an unknown error.''"
| "error_message e = []"

text \<open>\<open>error.toString()\<close>; \<open>None\<close> when the call throws.\<close>

fun error_toString :: "js_error \<Rightarrow> string option" where
  "error_toString (NonError r) = r"
| "error_toString e =
     Some (if error_message e = [] then error_name e
           else error_name e @ '': '' @ error_message e)"

text \<open>The eventual state of a promise.\<close>

datatype 'a promise = Pending | Fulfilled 'a | Rejected js_error

section \<open>The IndexedDB engine\<close>

text \<open>
  The engine is not part of the repository; the definitions of this section follow the
  Indexed Database API for the calls the store makes. Storage quota, cloning failures and
  other faults of the environment are outside the model.
\<close>

record index_params =
  unique :: bool
  multiEntry :: bool

record idb_index =
  keyPath :: string
  params :: index_params

text \<open>
  An object store with out-of-line keys (the store creates its tables with
  \<open>createObjectStore(tableName)\<close>, with no key path and no key generator). Its records
  are kept in ascending key order, the order in which \<open>getAll\<close> returns them.
\<close>

record object_store =
  indexes :: "idb_index obj"
  records :: "(jsval \<times> resource) list"

record idb_database =
  version :: int
  objectStores :: "string \<rightharpoonup> object_store"

text \<open>Valid keys: numbers and strings among the modelled values.\<close>

fun valid_key :: "jsval \<Rightarrow> bool" where
  "valid_key (JNum n) = True"
| "valid_key (JStr s) = True"
| "valid_key v = False"

fun code_units_less :: "string \<Rightarrow> string \<Rightarrow> bool" where
  "code_units_less [] [] = False"
| "code_units_less [] (y # ys) = True"
| "code_units_less (x # xs) [] = False"
| "code_units_less (x # xs) (y # ys) =
     (if x = y then code_units_less xs ys else (of_char x :: nat) < of_char y)"

text \<open>The engine's key order: numbers before strings.\<close>

fun key_less :: "jsval \<Rightarrow> jsval \<Rightarrow> bool" where
  "key_less (JNum a) (JNum b) = (a < b)"
| "key_less (JNum a) (JStr b) = True"
| "key_less (JStr a) (JStr b) = code_units_less a b"
| "key_less a b = False"

fun insert_record ::
  "jsval \<Rightarrow> resource \<Rightarrow> (jsval \<times> resource) list \<Rightarrow> (jsval \<times> resource) list" where
  "insert_record k v [] = [(k, v)]"
| "insert_record k v ((k', v') # rs) =
     (if key_less k k' then (k, v) # (k', v') # rs else (k', v') # insert_record k v rs)"

definition remove_record :: "jsval \<Rightarrow> (jsval \<times> resource) list \<Rightarrow> (jsval \<times> resource) list" where
  "remove_record k rs = filter (\<lambda>kv. fst kv \<noteq> k) rs"

subsection \<open>Key paths\<close>

definition ident_start :: "char \<Rightarrow> bool" where
  "ident_start c =
     (let n = (of_char c :: nat)
      in (65 \<le> n \<and> n \<le> 90) \<or> (97 \<le> n \<and> n \<le> 122) \<or> n = 36 \<or> n = 95)"

definition ident_part :: "char \<Rightarrow> bool" where
  "ident_part c = (let n = (of_char c :: nat) in ident_start c \<or> (48 \<le> n \<and> n \<le> 57))"

fun is_identifier :: "string \<Rightarrow> bool" where
  "is_identifier [] = False"
| "is_identifier (c # cs) = (ident_start c \<and> list_all ident_part cs)"

fun split_dots :: "string \<Rightarrow> string list" where
  "split_dots [] = [[]]"
| "split_dots (c # cs) =
     (if c = CHR ''.'' then [] # split_dots cs
      else (case split_dots cs of [] \<Rightarrow> [[c]] | p # ps \<Rightarrow> (c # p) # ps))"

text \<open>A key path is the empty string or identifiers separated by periods.\<close>

definition valid_key_path :: "string \<Rightarrow> bool" where
  "valid_key_path p = (p = [] \<or> list_all is_identifier (split_dots p))"

text \<open>
  Steps of a key path below the first one are evaluated on a primitive value, where only
  the \<open>length\<close> of a string is defined.
\<close>

fun eval_steps :: "jsval \<Rightarrow> string list \<Rightarrow> jsval option" where
  "eval_steps v [] = Some v"
| "eval_steps (JStr s) (p # ps) =
     (if p = ''length'' then eval_steps (JNum (int (length s))) ps else None)"
| "eval_steps v (p # ps) = None"

text \<open>
  Evaluating a key path on a stored value. The empty path yields the value itself, an
  object, which is not a valid key.
\<close>

definition eval_key_path :: "resource \<Rightarrow> string \<Rightarrow> jsval option" where
  "eval_key_path val path =
     (if path = [] then None
      else (case split_dots path of
              [] \<Rightarrow> None
            | p # ps \<Rightarrow> (case map_of val p of None \<Rightarrow> None | Some v \<Rightarrow> eval_steps v ps)))"

text \<open>The key under which an index refers to a value, if any.\<close>

definition index_key :: "idb_index \<Rightarrow> resource \<Rightarrow> jsval option" where
  "index_key idx val =
     (case eval_key_path val (keyPath idx) of
        None \<Rightarrow> None
      | Some v \<Rightarrow> (if valid_key v then Some v else None))"

text \<open>
  Storing \<open>val\<close> under \<open>key\<close> violates a unique index when another record (one with a
  different primary key) already has the same key in that index.
\<close>

definition unique_conflict :: "object_store \<Rightarrow> jsval \<Rightarrow> resource \<Rightarrow> bool" where
  "unique_conflict os key val =
     list_ex (\<lambda>entry.
         unique (params (snd entry)) \<and>
         (case index_key (snd entry) val of
            None \<Rightarrow> False
          | Some ik \<Rightarrow>
              list_ex (\<lambda>kv. fst kv \<noteq> key \<and> index_key (snd entry) (snd kv) = Some ik)
                (records os)))
       (indexes os)"

subsection \<open>Requests on an object store\<close>

text \<open>
  A call on an object store either throws at once, or returns a request that later fires
  its error event or its success event.
\<close>

datatype 'a outcome = Throws js_error | OnError js_error | OnSuccess 'a

definition idb_get :: "object_store \<Rightarrow> jsval \<Rightarrow> resource option outcome" where
  "idb_get os key =
     (if \<not> valid_key key then Throws (DOMException ''DataError'')
      else OnSuccess (map_of (records os) key))"

definition idb_getAll :: "object_store \<Rightarrow> resource list outcome" where
  "idb_getAll os = OnSuccess (map snd (records os))"

definition idb_add :: "object_store \<Rightarrow> resource \<Rightarrow> jsval \<Rightarrow> jsval outcome \<times> object_store" where
  "idb_add os val key =
     (if \<not> valid_key key then (Throws (DOMException ''DataError''), os)
      else if map_of (records os) key \<noteq> None then (OnError (DOMException ''ConstraintError''), os)
      else if unique_conflict os key val then (OnError (DOMException ''ConstraintError''), os)
      else (OnSuccess key, os\<lparr>records := insert_record key val (records os)\<rparr>))"

definition idb_put :: "object_store \<Rightarrow> resource \<Rightarrow> jsval \<Rightarrow> jsval outcome \<times> object_store" where
  "idb_put os val key =
     (if \<not> valid_key key then (Throws (DOMException ''DataError''), os)
      else if unique_conflict os key val then (OnError (DOMException ''ConstraintError''), os)
      else (OnSuccess key,
            os\<lparr>records := insert_record key val (remove_record key (records os))\<rparr>))"

definition idb_delete :: "object_store \<Rightarrow> jsval \<Rightarrow> unit outcome \<times> object_store" where
  "idb_delete os key =
     (if \<not> valid_key key then (Throws (DOMException ''DataError''), os)
      else (OnSuccess (), os\<lparr>records := remove_record key (records os)\<rparr>))"

subsection \<open>Schema changes\<close>

text \<open>
  \<open>objectStoreNames.contains\<close>, \<open>createObjectStore\<close> and \<open>createIndex\<close>. Stores can be
  created only while the connection's upgrade transaction runs (\<open>upgrading\<close>).
\<close>

definition contains :: "idb_database \<Rightarrow> string \<Rightarrow> bool" where
  "contains d name = (objectStores d name \<noteq> None)"

definition createObjectStore ::
  "bool \<Rightarrow> idb_database \<Rightarrow> string \<Rightarrow> js_error + (object_store \<times> idb_database)" where
  "createObjectStore upgrading d name =
     (if \<not> upgrading then Inl (DOMException ''InvalidStateError'')
      else if contains d name then Inl (DOMException ''ConstraintError'')
      else (let table = \<lparr>indexes = [], records = []\<rparr>
            in Inr (table, d\<lparr>objectStores := (objectStores d)(name \<mapsto> table)\<rparr>)))"

definition createIndex ::
  "object_store \<Rightarrow> string \<Rightarrow> string \<Rightarrow> index_params \<Rightarrow> js_error + object_store" where
  "createIndex os name path options =
     (if map_of (indexes os) name \<noteq> None then Inl (DOMException ''ConstraintError'')
      else if \<not> valid_key_path path then Inl (DOMException ''SyntaxError'')
      else Inr (os\<lparr>indexes := indexes os @ [(name, \<lparr>keyPath = path, params = options\<rparr>)]\<rparr>))"

section \<open>The store\<close>

subsection \<open>Connection establishment\<close>

type_synonym Tables = "index_params obj obj"

text \<open>
  \<open>interface Store { db; store }\<close>: the open database and the open request; the
  operations only use \<open>db\<close>.
\<close>

record Store =
  db :: idb_database

text \<open>
  The inner \<open>forEach\<close> of \<open>createTables\<close>: one \<open>createIndex(tableKey, tableKey, options)\<close>
  for each entry of the table's declaration. An exception ends the iteration.
\<close>

fun forEach_index :: "object_store \<Rightarrow> (string \<times> index_params) list \<Rightarrow> js_error + object_store" where
  "forEach_index table [] = Inr table"
| "forEach_index table ((tableKey, options) # rest) =
     (case createIndex table tableKey tableKey options of
        Inl e \<Rightarrow> Inl e
      | Inr table' \<Rightarrow> forEach_index table' rest)"

text \<open>
  The outer \<open>forEach\<close> over \<open>Object.entries(missingTables)\<close>. A declaration that is
  \<open>undefined\<close> makes \<open>Object.entries\<close> throw a \<open>TypeError\<close>.
\<close>

fun forEach_table ::
  "bool \<Rightarrow> idb_database \<Rightarrow> (string \<times> index_params obj option) list \<Rightarrow> js_error + idb_database" where
  "forEach_table upgrading d [] = Inr d"
| "forEach_table upgrading d ((tableName, tableOptions) # rest) =
     (case createObjectStore upgrading d tableName of
        Inl e \<Rightarrow> Inl e
      | Inr (table, d') \<Rightarrow>
          (case tableOptions of
             None \<Rightarrow> Inl TypeError
           | Some opts \<Rightarrow>
               (case forEach_index table (Object_entries opts) of
                  Inl e \<Rightarrow> Inl e
                | Inr table' \<Rightarrow>
                    forEach_table upgrading
                      (d'\<lparr>objectStores := (objectStores d')(tableName \<mapsto> table')\<rparr>) rest)))"

text \<open>
  \<open>createTables\<close> (lines 68 to 87), bound to the database \<open>this\<close>. \<open>upgrading\<close> tells
  whether it runs inside the upgrade transaction (from \<open>onupgradeneeded\<close>) or not (from
  \<open>onsuccess\<close> and \<open>onversionchange\<close>).
\<close>

definition createTables :: "bool \<Rightarrow> idb_database \<Rightarrow> Tables \<Rightarrow> js_error + idb_database" where
  "createTables upgrading this tables =
     (let hasUpdates = list_all (\<lambda>table. \<not> contains this table) (Object_keys tables)
      in if \<not> hasUpdates then Inr this
         else
           (let missingTables =
                  foldl (\<lambda>acc curr. obj_set acc curr (map_of tables curr)) []
                    (filter (\<lambda>table. \<not> contains this table) (Object_keys tables))
            in forEach_table upgrading this (Object_entries missingTables)))"

text \<open>
  The \<open>onsuccess\<close> handler: it runs \<open>createTables\<close> outside any upgrade transaction and
  then resolves. When \<open>createTables\<close> throws there, the handler ends before \<open>resolve\<close> and
  the promise is never settled.
\<close>

definition onsuccess :: "idb_database \<Rightarrow> Tables \<Rightarrow> Store option promise \<times> idb_database option" where
  "onsuccess d tables =
     (case createTables False d tables of
        Inl e \<Rightarrow> (Pending, Some d)
      | Inr d' \<Rightarrow> (Fulfilled (Some \<lparr>db = d'\<rparr>), Some d'))"

text \<open>
  \<open>_initializeStore\<close> (lines 34 to 89) against the origin's database \<open>react-with-use\<close>:
  \<open>backing\<close> is \<open>None\<close> when it does not exist yet, and \<open>blocked\<close> tells whether another
  connection keeps an older version open. The result is the value of \<open>this._store\<close> and
  the database afterwards. \<open>open\<close> throws a \<open>TypeError\<close> for a version below 1, which
  rejects the promise; a stored version above the requested one fires the error event; an
  upgrade that is blocked fires the blocked event; an exception in \<open>onupgradeneeded\<close>
  aborts the upgrade, which leaves the database as it was and fires the error event.
\<close>

definition initializeStore ::
  "idb_database option \<Rightarrow> bool \<Rightarrow> Tables \<Rightarrow> int \<Rightarrow> Store option promise \<times> idb_database option" where
  "initializeStore backing blocked tables dbVersion =
     (if dbVersion < 1 then (Rejected TypeError, backing)
      else
        (let old = (case backing of
                      None \<Rightarrow> \<lparr>version = 0, objectStores = Map.empty\<rparr>
                    | Some d \<Rightarrow> d)
         in if dbVersion < version old then (Rejected OpeningDbError, backing)
            else if version old < dbVersion then
              (if blocked then (Rejected OpeningDbError, backing)
               else (case createTables True (old\<lparr>version := dbVersion\<rparr>) tables of
                       Inl e \<Rightarrow> (Rejected OpeningDbError, backing)
                     | Inr upgraded \<Rightarrow> onsuccess upgraded tables))
            else onsuccess old tables))"

text \<open>
  The \<open>onversionchange\<close> handler set by \<open>onsuccess\<close>: \<open>createTables\<close> again, outside an
  upgrade transaction. \<open>Inl\<close> is the exception that escapes the handler.
\<close>

definition onversionchange :: "idb_database \<Rightarrow> Tables \<Rightarrow> js_error + idb_database" where
  "onversionchange this tables = createTables False this tables"

subsection \<open>Operations\<close>

text \<open>
  The state the operations run in: \<open>this._store\<close>, and the successive results of
  \<open>globalThis.crypto.randomUUID()\<close> with the number of calls made so far.
\<close>

record world =
  this_store :: "Store option promise"
  uuid_source :: "nat \<Rightarrow> string"
  uuid_calls :: nat

definition randomUUID :: "world \<Rightarrow> string \<times> world" where
  "randomUUID w = (uuid_source w (uuid_calls w), w\<lparr>uuid_calls := Suc (uuid_calls w)\<rparr>)"

text \<open>
  \<open>_getTable\<close> (lines 91 to 105). \<open>transaction\<close> throws \<open>NotFoundError\<close> for a name that
  is not an object store; the transaction and the object store it returns otherwise are
  objects, so the two \<open>if (!...)\<close> tests never fire.
\<close>

definition getTable :: "world \<Rightarrow> string \<Rightarrow> object_store promise" where
  "getTable w table =
     (case this_store w of
        Pending \<Rightarrow> Pending
      | Rejected e \<Rightarrow> Rejected e
      | Fulfilled None \<Rightarrow> Rejected NoDbFoundError
      | Fulfilled (Some store) \<Rightarrow>
          (case objectStores (db store) table of
             None \<Rightarrow> Rejected (DOMException ''NotFoundError'')
           | Some objectStore \<Rightarrow> Fulfilled objectStore))"

text \<open>The transaction commits: the object store's new contents become the database's.\<close>

definition commit :: "world \<Rightarrow> string \<Rightarrow> object_store \<Rightarrow> world" where
  "commit w table objectStore =
     (case this_store w of
        Fulfilled (Some store) \<Rightarrow>
          w\<lparr>this_store := Fulfilled (Some (store\<lparr>db :=
              (db store)\<lparr>objectStores := (objectStores (db store))(table \<mapsto> objectStore)\<rparr>\<rparr>))\<rparr>
      | _ \<Rightarrow> w)"

text \<open>\<open>throw new BaseError(`<prefix>${error.toString()}`)\<close>.\<close>

definition query_failed :: "string \<Rightarrow> js_error \<Rightarrow> js_error" where
  "query_failed prefix error =
     (case error_toString error of
        None \<Rightarrow> TypeError
      | Some t \<Rightarrow> BaseError (prefix @ t))"

text \<open>
  The five operations. Each returns the eventual state of its promise and the state
  afterwards. An exception inside \<open>try\<close> reaches the \<open>catch\<close> block; the promise returned
  from inside \<open>try\<close> is not awaited there, so the error of a failed request rejects the
  operation as it is. The events of a request have the request as target, so the
  \<open>isIDbRequest\<close> tests in the handlers hold.
\<close>

definition get_catch :: "js_error \<Rightarrow> js_error" where
  "get_catch error =
     (if \<not> instanceof_Error error then UnknownError
      else query_failed ''Get query failed. '' error)"

definition get :: "world \<Rightarrow> string \<Rightarrow> jsval \<Rightarrow> resource option promise \<times> world" where
  "get w table_name resourceId =
     (case getTable w table_name of
        Pending \<Rightarrow> (Pending, w)
      | Rejected error \<Rightarrow> (Rejected (get_catch error), w)
      | Fulfilled table \<Rightarrow>
          (case idb_get table resourceId of
             Throws error \<Rightarrow> (Rejected (get_catch error), w)
           | OnError error \<Rightarrow> (Rejected error, w)
           | OnSuccess result \<Rightarrow> (Fulfilled result, w)))"

definition getAll :: "world \<Rightarrow> string \<Rightarrow> resource list promise \<times> world" where
  "getAll w table_name =
     (case getTable w table_name of
        Pending \<Rightarrow> (Pending, w)
      | Rejected error \<Rightarrow> (Rejected (query_failed ''GetAll query failed. '' error), w)
      | Fulfilled table \<Rightarrow>
          (case idb_getAll table of
             Throws error \<Rightarrow> (Rejected (query_failed ''GetAll query failed. '' error), w)
           | OnError error \<Rightarrow> (Rejected error, w)
           | OnSuccess result \<Rightarrow> (Fulfilled result, w)))"

text \<open>The key \<open>create\<close> adds under: the \<open>id\<close> property when there is one, else a new UUID.\<close>

definition create_key :: "world \<Rightarrow> resource \<Rightarrow> jsval \<times> world" where
  "create_key w resource =
     (case map_of resource ''id'' of
        Some i \<Rightarrow> (i, w)
      | None \<Rightarrow> (let (uuid, w') = randomUUID w in (JStr uuid, w')))"

definition create :: "world \<Rightarrow> string \<Rightarrow> resource \<Rightarrow> unit promise \<times> world" where
  "create w table_name resource =
     (case getTable w table_name of
        Pending \<Rightarrow> (Pending, w)
      | Rejected error \<Rightarrow> (Rejected (BaseError ''Create query failed.''), w)
      | Fulfilled table \<Rightarrow>
          (let (key, w1) = create_key w resource;
               (result, table') = idb_add table resource key
           in case result of
                Throws error \<Rightarrow> (Rejected (BaseError ''Create query failed.''), w1)
              | OnError error \<Rightarrow> (Rejected error, w1)
              | OnSuccess r \<Rightarrow> (Fulfilled (), commit w1 table_name table')))"

definition update :: "world \<Rightarrow> string \<Rightarrow> resource \<Rightarrow> unit promise \<times> world" where
  "update w table_name resource =
     (case getTable w table_name of
        Pending \<Rightarrow> (Pending, w)
      | Rejected error \<Rightarrow> (Rejected (BaseError ''Update query failed.''), w)
      | Fulfilled table \<Rightarrow>
          (let (uuid, w1) = randomUUID w;
               (result, table') = idb_put table resource (JStr uuid)
           in case result of
                Throws error \<Rightarrow> (Rejected (BaseError ''Update query failed.''), w1)
              | OnError error \<Rightarrow> (Rejected error, w1)
              | OnSuccess r \<Rightarrow> (Fulfilled (), commit w1 table_name table')))"

definition delete :: "world \<Rightarrow> string \<Rightarrow> jsval \<Rightarrow> unit promise \<times> world" where
  "delete w table_name resourceId =
     (case getTable w table_name of
        Pending \<Rightarrow> (Pending, w)
      | Rejected error \<Rightarrow> (Rejected (Error ''Get query failed.''), w)
      | Fulfilled table \<Rightarrow>
          (let (result, table') = idb_delete table resourceId
           in case result of
                Throws error \<Rightarrow> (Rejected (Error ''Get query failed.''), w)
              | OnError error \<Rightarrow> (Rejected error, w)
              | OnSuccess r \<Rightarrow> (Fulfilled (), commit w table_name table')))"

section \<open>Concrete inputs\<close>

text \<open>
  The schema of the specification's scenario, \<open>{todos: {id: {unique: true}, title:
  {unique: true}}}\<close>, the same schema with a second table added, and the object stores
  and records used to evaluate the operations.
\<close>

definition unique_index :: index_params where
  "unique_index = \<lparr>unique = True, multiEntry = False\<rparr>"

definition todos_schema :: Tables where
  "todos_schema = [(''todos'', [(''id'', unique_index), (''title'', unique_index)])]"

definition todos_users_schema :: Tables where
  "todos_users_schema =
     [(''todos'', [(''id'', unique_index), (''title'', unique_index)]),
      (''users'', [(''id'', unique_index)])]"

definition todos_indexes :: "idb_index obj" where
  "todos_indexes =
     [(''id'', \<lparr>keyPath = ''id'', params = unique_index\<rparr>),
      (''title'', \<lparr>keyPath = ''title'', params = unique_index\<rparr>)]"

definition milk :: resource where
  "milk = [(''id'', JStr ''u1''), (''title'', JStr ''Buy milk'')]"

definition milk_again :: resource where
  "milk_again = [(''id'', JStr ''u2''), (''title'', JStr ''Buy milk'')]"

definition bread :: resource where
  "bread = [(''id'', JStr ''u1''), (''title'', JStr ''Buy bread'')]"

definition walk :: resource where
  "walk = [(''title'', JStr ''Walk the dog'')]"

definition call :: resource where
  "call = [(''id'', JStr ''u3''), (''title'', JStr ''Call home'')]"

definition empty_todos :: object_store where
  "empty_todos = \<lparr>indexes = todos_indexes, records = []\<rparr>"

definition milk_todos :: object_store where
  "milk_todos = \<lparr>indexes = todos_indexes, records = [(JStr ''u1'', milk)]\<rparr>"

definition plain_todos :: object_store where
  "plain_todos = \<lparr>indexes = [], records = [(JStr ''u1'', milk)]\<rparr>"

definition todos_db :: "int \<Rightarrow> object_store \<Rightarrow> idb_database" where
  "todos_db v os = \<lparr>version = v, objectStores = [''todos'' \<mapsto> os]\<rparr>"

definition demo_uuid :: "nat \<Rightarrow> string" where
  "demo_uuid n = ''uuid'' @ replicate n CHR ''x''"

text \<open>A store that has opened version 5 of a database whose table \<open>todos\<close> is \<open>os\<close>.\<close>

definition opened :: "object_store \<Rightarrow> world" where
  "opened os =
     \<lparr>this_store = Fulfilled (Some \<lparr>db = todos_db 5 os\<rparr>),
      uuid_source = demo_uuid, uuid_calls = 0\<rparr>"

text \<open>\<open>new AsyncStore(tables, dbVersion)\<close> against a backing store, unblocked.\<close>

definition new_AsyncStore :: "idb_database option \<Rightarrow> Tables \<Rightarrow> int \<Rightarrow> world" where
  "new_AsyncStore backing tables dbVersion =
     \<lparr>this_store = fst (initializeStore backing False tables dbVersion),
      uuid_source = demo_uuid, uuid_calls = 0\<rparr>"



section \<open>Auxiliary facts\<close>

lemma map_of_insert_record:
  "map_of rs k = None \<Longrightarrow>
   map_of (insert_record k v rs) k' = (if k' = k then Some v else map_of rs k')"
  by (induction rs) (auto split: if_splits)

lemma map_of_remove_record:
  "map_of (remove_record k rs) k' = (if k' = k then None else map_of rs k')"
  unfolding remove_record_def by (induction rs) auto

lemma getTable_commit:
  "getTable w T = Fulfilled os \<Longrightarrow> getTable (commit w T os') T = Fulfilled os'"
  by (auto simp: getTable_def commit_def split: promise.splits option.splits)

lemma getTable_uuid_calls [simp]: "getTable (w\<lparr>uuid_calls := n\<rparr>) T = getTable w T"
  by (simp add: getTable_def)

lemma commit_uuid_calls [simp]: "uuid_calls (commit w T os) = uuid_calls w"
  by (simp add: commit_def split: promise.splits option.splits)

lemma getTable_opened: "getTable (opened os) ''todos'' = Fulfilled os"
  by (simp add: getTable_def opened_def todos_db_def)

text \<open>
  The scenario's store: constructing it with version 5 on a fresh backing store creates the
  table \<open>todos\<close> with its two indexes and opens it.
\<close>

lemma initializeStore_fresh:
  "initializeStore None False todos_schema 5 =
     (Fulfilled (Some \<lparr>db = todos_db 5 empty_todos\<rparr>), Some (todos_db 5 empty_todos))"
  by (simp add: initializeStore_def onsuccess_def createTables_def Object_keys_def Object_entries_def
      contains_def createObjectStore_def createIndex_def valid_key_path_def ident_start_def
      ident_part_def Let_def
      todos_schema_def unique_index_def todos_db_def empty_todos_def todos_indexes_def)

lemma new_AsyncStore_fresh: "new_AsyncStore None todos_schema 5 = opened empty_todos"
  by (simp add: new_AsyncStore_def initializeStore_fresh opened_def)




subsection \<open>What \<open>createTables\<close> preserves\<close>

text \<open>
  A table that is present is never recreated or altered, outside an upgrade transaction
  nothing changes at all, and the version is left alone. Hence a store constructed again
  with the same schema and version finds the database as the first construction left it.
\<close>

lemma forEach_table_keeps_present:
  "forEach_table upgrading d entries = Inr d' \<Longrightarrow> contains d name \<Longrightarrow>
   objectStores d' name = objectStores d name"
proof (induction entries arbitrary: d)
  case Nil
  then show ?case by simp
next
  case (Cons entry entries)
  obtain tableName tableOptions where entry: "entry = (tableName, tableOptions)"
    by (cases entry)
  from Cons.prems(1) obtain table opts table' where
    created: "createObjectStore upgrading d tableName =
                Inr (table, d\<lparr>objectStores := (objectStores d)(tableName \<mapsto> table)\<rparr>)"
    and absent: "\<not> contains d tableName"
    and rest: "forEach_table upgrading
                 (d\<lparr>objectStores := (objectStores d)(tableName \<mapsto> table')\<rparr>) entries = Inr d'"
    unfolding entry
    by (auto simp: createObjectStore_def Let_def split: if_splits sum.splits option.splits)
  from absent Cons.prems(2) have neq: "name \<noteq> tableName"
    by auto
  with Cons.prems(2)
  have "contains (d\<lparr>objectStores := (objectStores d)(tableName \<mapsto> table')\<rparr>) name"
    by (simp add: contains_def)
  from Cons.IH [OF rest this] neq show ?case
    by simp
qed

lemma createTables_keeps_present:
  "createTables upgrading d tables = Inr d' \<Longrightarrow> contains d name \<Longrightarrow>
   objectStores d' name = objectStores d name"
  by (auto simp: createTables_def Let_def split: if_splits dest: forEach_table_keeps_present)

lemma forEach_table_outside_upgrade:
  "forEach_table False d entries = Inr d' \<Longrightarrow> d' = d"
  by (cases entries) (auto simp: createObjectStore_def)

lemma createTables_outside_upgrade:
  "createTables False d tables = Inr d' \<Longrightarrow> d' = d"
  by (auto simp: createTables_def Let_def split: if_splits dest: forEach_table_outside_upgrade)

lemma forEach_table_version:
  "forEach_table upgrading d entries = Inr d' \<Longrightarrow> version d' = version d"
proof (induction entries arbitrary: d)
  case Nil
  then show ?case by simp
next
  case (Cons entry entries)
  obtain tableName tableOptions where entry: "entry = (tableName, tableOptions)"
    by (cases entry)
  from Cons.prems obtain table' where
    rest: "forEach_table upgrading
             (d\<lparr>objectStores := (objectStores d)(tableName \<mapsto> table')\<rparr>) entries = Inr d'"
    unfolding entry
    by (auto simp: createObjectStore_def Let_def split: if_splits sum.splits option.splits)
  from Cons.IH [OF rest] show ?case
    by simp
qed

lemma createTables_version:
  "createTables upgrading d tables = Inr d' \<Longrightarrow> version d' = version d"
  by (auto simp: createTables_def Let_def split: if_splits dest: forEach_table_version)

lemma onsuccess_again:
  "onsuccess d tables = (Fulfilled st, b) \<Longrightarrow> b = Some d \<and> st = Some \<lparr>db = d\<rparr>"
  by (auto simp: onsuccess_def split: sum.splits dest: createTables_outside_upgrade)

lemma initializeStore_twice:
  assumes "initializeStore backing False tables dbVersion = (Fulfilled st, backing')"
  shows "initializeStore backing' False tables dbVersion = (Fulfilled st, backing')"
proof -
  let ?old = "case backing of None \<Rightarrow> \<lparr>version = 0, objectStores = Map.empty\<rparr> | Some d \<Rightarrow> d"
  from assms have v: "\<not> dbVersion < 1" and nv: "\<not> dbVersion < version ?old"
    by (auto simp: initializeStore_def Let_def split: if_splits)
  show ?thesis
  proof (cases "version ?old < dbVersion")
    case True
    with assms v nv obtain upgraded where
      up: "createTables True (?old\<lparr>version := dbVersion\<rparr>) tables = Inr upgraded"
      and ok: "onsuccess upgraded tables = (Fulfilled st, backing')"
      by (auto simp: initializeStore_def Let_def split: if_splits sum.splits)
    from createTables_version [OF up] have "version upgraded = dbVersion"
      by simp
    moreover from onsuccess_again [OF ok] have "backing' = Some upgraded"
      by simp
    ultimately show ?thesis
      using ok v by (simp add: initializeStore_def)
  next
    case False
    with assms v nv have ok: "onsuccess ?old tables = (Fulfilled st, backing')"
      by (auto simp: initializeStore_def Let_def split: if_splits)
    from onsuccess_again [OF ok] have "backing' = Some ?old"
      by simp
    then show ?thesis
      using ok v nv False by (simp add: initializeStore_def)
  qed
qed

text \<open>A table that \<open>createTables\<close> creates holds no records.\<close>

lemma forEach_index_records:
  "forEach_index table opts = Inr table' \<Longrightarrow> records table' = records table"
  by (induction table opts rule: forEach_index.induct)
    (auto simp: createIndex_def split: sum.splits if_splits)

lemma forEach_table_new_empty:
  "forEach_table upgrading d entries = Inr d' \<Longrightarrow> \<not> contains d name \<Longrightarrow>
   objectStores d' name = Some os \<Longrightarrow> records os = []"
proof (induction entries arbitrary: d)
  case Nil
  then show ?case by (simp add: contains_def)
next
  case (Cons entry entries)
  obtain tableName tableOptions where entry: "entry = (tableName, tableOptions)"
    by (cases entry)
  from Cons.prems(1) obtain opts table' where
    idx: "forEach_index \<lparr>indexes = [], records = []\<rparr> (Object_entries opts) = Inr table'"
    and rest: "forEach_table upgrading
                 (d\<lparr>objectStores := (objectStores d)(tableName \<mapsto> table')\<rparr>) entries = Inr d'"
    unfolding entry
    by (auto simp: createObjectStore_def Let_def split: if_splits sum.splits option.splits)
  let ?d = "d\<lparr>objectStores := (objectStores d)(tableName \<mapsto> table')\<rparr>"
  show ?case
  proof (cases "name = tableName")
    case True
    then have "contains ?d name"
      by (simp add: contains_def)
    from forEach_table_keeps_present [OF rest this] True Cons.prems(3)
    have "os = table'" by simp
    with forEach_index_records [OF idx] show ?thesis by simp
  next
    case False
    with Cons.prems(2) have "\<not> contains ?d name"
      by (simp add: contains_def)
    from Cons.IH [OF rest this Cons.prems(3)] show ?thesis .
  qed
qed

lemma createTables_new_empty:
  "createTables upgrading d tables = Inr d' \<Longrightarrow> \<not> contains d name \<Longrightarrow>
   objectStores d' name = Some os \<Longrightarrow> records os = []"
  by (auto simp: createTables_def Let_def contains_def split: if_splits
      dest: forEach_table_new_empty [unfolded contains_def])

section \<open>Reading\<close>



text \<open>
  Claim C9. For a table \<open>T\<close> of the opened store that holds no records, as a freshly
  created one does, \<open>getAll(T)\<close> resolves with the empty list.
\<close>

theorem getAll_empty_table:
  assumes "getTable w T = Fulfilled os"
    and "records os = []"
  shows "getAll w T = (Fulfilled [], w)"
  using assms by (simp add: getAll_def idb_getAll_def)

theorem getAll_empty_table_witness:
  "getTable (new_AsyncStore None todos_schema 5) ''todos'' = Fulfilled empty_todos
   \<and> records empty_todos = []
   \<and> getAll (new_AsyncStore None todos_schema 5) ''todos''
       = (Fulfilled [], new_AsyncStore None todos_schema 5)"
proof -
  have h1: "getTable (new_AsyncStore None todos_schema 5) ''todos'' = Fulfilled empty_todos"
    by (simp add: new_AsyncStore_fresh getTable_opened)
  have h2: "records empty_todos = []"
    by (simp add: empty_todos_def)
  show ?thesis
    using h1 h2 getAll_empty_table [OF h1 h2] by simp
qed

text \<open>
  Claim C10. In every state, for every table name and key, \<open>get\<close> and \<open>getAll\<close> leave
  the state as it is: the contents of every table of the database, and the number of
  UUIDs drawn.
\<close>

theorem reads_leave_state:
  "snd (get w T k) = w \<and> snd (getAll w T) = w"
  by (simp add: get_def getAll_def idb_getAll_def split: promise.splits outcome.splits)

section \<open>Schema creation\<close>

text \<open>
  Claim C1. During connection establishment the store is to create exactly the declared
  tables that are absent from the database, with their indexes. \<open>createTables\<close> computes
  \<open>hasUpdates\<close> with \<open>every\<close>, so it creates tables only when all declared tables are
  absent. Evaluated here: a store constructed with the schema \<open>todos\<close> at version 1 on a
  fresh backing store, then a store constructed with the schema \<open>todos, users\<close> at
  version 2. The upgrade runs, \<open>users\<close> is not created, and \<open>getAll\<close> on it is rejected.
\<close>

theorem createTables_skips_added_table:
  "initializeStore None False todos_schema 1 =
     (Fulfilled (Some \<lparr>db = todos_db 1 empty_todos\<rparr>), Some (todos_db 1 empty_todos))
   \<and> createTables True (todos_db 2 empty_todos) todos_users_schema = Inr (todos_db 2 empty_todos)
   \<and> initializeStore (Some (todos_db 1 empty_todos)) False todos_users_schema 2 =
       (Fulfilled (Some \<lparr>db = todos_db 2 empty_todos\<rparr>), Some (todos_db 2 empty_todos))
   \<and> contains (todos_db 2 empty_todos) ''users'' = False
   \<and> fst (getAll (new_AsyncStore (Some (todos_db 1 empty_todos)) todos_users_schema 2) ''users'')
       = Rejected (BaseError ''GetAll query failed. NotFoundError'')"
  by (simp add: initializeStore_def onsuccess_def createTables_def Object_keys_def Object_entries_def
      contains_def createObjectStore_def createIndex_def valid_key_path_def ident_start_def
      ident_part_def Let_def
      todos_schema_def todos_users_schema_def unique_index_def todos_db_def empty_todos_def
      todos_indexes_def new_AsyncStore_def getAll_def getTable_def query_failed_def)

section \<open>Writing\<close>

text \<open>
  Claim C3, as amended. Let \<open>T\<close> be a table of the opened store and \<open>R\<close> a record whose
  storage key (the value of its \<open>id\<close> property when it has one, else the UUID drawn for
  the call) is a valid key that holds no record in \<open>T\<close>, and let \<open>R\<close> collide with no
  stored record on a unique index of \<open>T\<close>. Then \<open>create(T, R)\<close> resolves, and \<open>get\<close> with
  that key afterwards resolves with \<open>R\<close>.
\<close>

theorem create_get_roundtrip:
  assumes "getTable w T = Fulfilled os"
    and "key = (case map_of R ''id'' of
                  Some i \<Rightarrow> i
                | None \<Rightarrow> JStr (uuid_source w (uuid_calls w)))"
    and "valid_key key"
    and "map_of (records os) key = None"
    and "\<not> unique_conflict os key R"
  shows "fst (create w T R) = Fulfilled () \<and>
         fst (get (snd (create w T R)) T key) = Fulfilled (Some R)"
  using assms
  by (auto simp: create_def idb_add_def create_key_def randomUUID_def get_def idb_get_def
      getTable_commit map_of_insert_record split: option.splits prod.splits)

theorem create_get_roundtrip_witness:
  "getTable (opened milk_todos) ''todos'' = Fulfilled milk_todos
   \<and> JStr ''uuid'' = (case map_of walk ''id'' of
                       Some i \<Rightarrow> i
                     | None \<Rightarrow> JStr (uuid_source (opened milk_todos) (uuid_calls (opened milk_todos))))
   \<and> JStr ''u3'' = (case map_of call ''id'' of
                     Some i \<Rightarrow> i
                   | None \<Rightarrow> JStr (uuid_source (opened milk_todos) (uuid_calls (opened milk_todos))))
   \<and> unique_conflict milk_todos (JStr ''uuid'') walk = False
   \<and> unique_conflict milk_todos (JStr ''u3'') call = False
   \<and> fst (create (opened milk_todos) ''todos'' walk) = Fulfilled ()
   \<and> fst (get (snd (create (opened milk_todos) ''todos'' walk)) ''todos'' (JStr ''uuid''))
       = Fulfilled (Some walk)
   \<and> fst (create (opened milk_todos) ''todos'' call) = Fulfilled ()
   \<and> fst (get (snd (create (opened milk_todos) ''todos'' call)) ''todos'' (JStr ''u3''))
       = Fulfilled (Some call)"
proof -
  have h1: "getTable (opened milk_todos) ''todos'' = Fulfilled milk_todos"
    by (rule getTable_opened)
  have k1: "JStr ''uuid'' = (case map_of walk ''id'' of
                Some i \<Rightarrow> i
              | None \<Rightarrow> JStr (uuid_source (opened milk_todos) (uuid_calls (opened milk_todos))))"
    by (simp add: walk_def opened_def demo_uuid_def)
  have k2: "JStr ''u3'' = (case map_of call ''id'' of
                Some i \<Rightarrow> i
              | None \<Rightarrow> JStr (uuid_source (opened milk_todos) (uuid_calls (opened milk_todos))))"
    by (simp add: call_def)
  have v1: "valid_key (JStr ''uuid'')" and v2: "valid_key (JStr ''u3'')"
    by simp_all
  have f1: "map_of (records milk_todos) (JStr ''uuid'') = None"
    and f2: "map_of (records milk_todos) (JStr ''u3'') = None"
    by (simp_all add: milk_todos_def)
  have c1: "\<not> unique_conflict milk_todos (JStr ''uuid'') walk"
    and c2: "\<not> unique_conflict milk_todos (JStr ''u3'') call"
    by (simp_all add: unique_conflict_def index_key_def eval_key_path_def milk_todos_def todos_indexes_def
        unique_index_def milk_def walk_def call_def)
  show ?thesis
    using h1 k1 k2 c1 c2
      create_get_roundtrip [OF h1 k1 v1 f1 c1] create_get_roundtrip [OF h1 k2 v2 f2 c2]
    by simp
qed

text \<open>
  Claim C3 as stated fails: in the table \<open>todos\<close> of the scenario, which holds the record
  with id \<open>u1\<close> and title \<open>Buy milk\<close>, the record with id \<open>u2\<close> and the same title is not
  stored, yet \<open>create\<close> is rejected by the unique index on \<open>title\<close> and \<open>get\<close> with \<open>u2\<close>
  finds nothing.
\<close>

theorem create_unique_index_counterexample:
  "getTable (opened milk_todos) ''todos'' = Fulfilled milk_todos
   \<and> map_of (records milk_todos) (JStr ''u2'') = None
   \<and> map_of milk_again ''id'' = Some (JStr ''u2'')
   \<and> fst (create (opened milk_todos) ''todos'' milk_again)
       = Rejected (DOMException ''ConstraintError'')
   \<and> fst (get (snd (create (opened milk_todos) ''todos'' milk_again)) ''todos'' (JStr ''u2''))
       = Fulfilled None"
  by (simp add: create_def create_key_def getTable_def idb_add_def unique_conflict_def index_key_def eval_key_path_def
      get_def idb_get_def opened_def todos_db_def milk_todos_def todos_indexes_def unique_index_def
      milk_def milk_again_def)

text \<open>
  Claim C7. For a table \<open>T\<close> of the opened store and a record \<open>R\<close> whose storage key
  already holds a record in \<open>T\<close>, \<open>create(T, R)\<close> is rejected and the database is left
  as it was.
\<close>

theorem create_duplicate_key_rejects:
  assumes "getTable w T = Fulfilled os"
    and "key = fst (create_key w R)"
    and "map_of (records os) key = Some old"
  shows "(\<exists>e. fst (create w T R) = Rejected e) \<and>
         this_store (snd (create w T R)) = this_store w"
  using assms
  by (auto simp: create_def idb_add_def create_key_def randomUUID_def
      split: option.splits prod.splits)

theorem create_duplicate_key_rejects_witness:
  "getTable (opened milk_todos) ''todos'' = Fulfilled milk_todos
   \<and> JStr ''u1'' = fst (create_key (opened milk_todos) bread)
   \<and> map_of (records milk_todos) (JStr ''u1'') = Some milk
   \<and> fst (create (opened milk_todos) ''todos'' bread) = Rejected (DOMException ''ConstraintError'')
   \<and> this_store (snd (create (opened milk_todos) ''todos'' bread)) = this_store (opened milk_todos)
   \<and> fst (get (snd (create (opened milk_todos) ''todos'' bread)) ''todos'' (JStr ''u1''))
       = Fulfilled (Some milk)"
proof -
  have h1: "getTable (opened milk_todos) ''todos'' = Fulfilled milk_todos"
    by (rule getTable_opened)
  have h2: "JStr ''u1'' = fst (create_key (opened milk_todos) bread)"
    by (simp add: create_key_def bread_def)
  have h3: "map_of (records milk_todos) (JStr ''u1'') = Some milk"
    by (simp add: milk_todos_def)
  have "fst (create (opened milk_todos) ''todos'' bread) = Rejected (DOMException ''ConstraintError'')"
    by (simp add: create_def create_key_def getTable_def idb_add_def opened_def todos_db_def
        milk_todos_def bread_def)
  moreover
  have "fst (get (snd (create (opened milk_todos) ''todos'' bread)) ''todos'' (JStr ''u1''))
          = Fulfilled (Some milk)"
    by (simp add: create_def create_key_def getTable_def idb_add_def get_def idb_get_def
        opened_def todos_db_def milk_todos_def bread_def)
  ultimately show ?thesis
    using h1 h2 h3 create_duplicate_key_rejects [OF h1 h2 h3] by simp
qed

text \<open>
  Claim C2. \<open>update(T, p)\<close> is to overwrite the record stored at the key \<open>k\<close> that \<open>p\<close>
  carries. The code puts \<open>p\<close> under a new UUID instead. Evaluated here on the record
  with id \<open>u1\<close> and an update that carries \<open>u1\<close>: in the scenario's table the put collides
  with the stored record on the unique index on \<open>id\<close> and is rejected; in a table without
  indexes it resolves and adds a second record. In both the record at \<open>u1\<close> stays as it
  was.
\<close>

theorem update_keeps_record_at_id:
  "fst (update (opened milk_todos) ''todos'' bread) = Rejected (DOMException ''ConstraintError'')
   \<and> fst (get (snd (update (opened milk_todos) ''todos'' bread)) ''todos'' (JStr ''u1''))
       = Fulfilled (Some milk)
   \<and> fst (update (opened plain_todos) ''todos'' bread) = Fulfilled ()
   \<and> fst (get (snd (update (opened plain_todos) ''todos'' bread)) ''todos'' (JStr ''u1''))
       = Fulfilled (Some milk)
   \<and> fst (getAll (snd (update (opened plain_todos) ''todos'' bread)) ''todos'')
       = Fulfilled [milk, bread]"
  by (simp add: update_def randomUUID_def getTable_def commit_def idb_put_def unique_conflict_def index_key_def eval_key_path_def
      remove_record_def get_def idb_get_def getAll_def idb_getAll_def
      opened_def todos_db_def demo_uuid_def milk_todos_def plain_todos_def todos_indexes_def
      unique_index_def milk_def bread_def)

text \<open>
  Claim C4, as amended. A call of \<open>update\<close> that obtains its table draws one UUID and puts
  the record under it, whatever \<open>id\<close> the record carries: when the call resolves, \<open>get\<close>
  with that UUID returns the record. A call of \<open>delete\<close> draws no UUID: it removes the
  record at the key it is given.
\<close>

theorem update_draws_uuid_delete_uses_id:
  assumes "getTable w T = Fulfilled os"
  shows "uuid_calls (snd (update w T p)) = Suc (uuid_calls w)
       \<and> (fst (update w T p) = Fulfilled () \<longrightarrow>
            fst (get (snd (update w T p)) T (JStr (uuid_source w (uuid_calls w))))
              = Fulfilled (Some p))
       \<and> uuid_calls (snd (delete w T k)) = uuid_calls w
       \<and> (fst (delete w T k) = Fulfilled () \<longrightarrow>
            fst (get (snd (delete w T k)) T k) = Fulfilled None)"
proof (intro conjI impI)
  show "uuid_calls (snd (update w T p)) = Suc (uuid_calls w)"
    using assms by (simp add: update_def randomUUID_def idb_put_def)
  show "uuid_calls (snd (delete w T k)) = uuid_calls w"
    using assms by (simp add: delete_def idb_delete_def)
next
  assume "fst (update w T p) = Fulfilled ()"
  then show "fst (get (snd (update w T p)) T (JStr (uuid_source w (uuid_calls w))))
               = Fulfilled (Some p)"
    using assms
    by (simp add: update_def randomUUID_def idb_put_def get_def idb_get_def getTable_commit
        map_of_insert_record map_of_remove_record split: if_splits)
next
  assume "fst (delete w T k) = Fulfilled ()"
  then show "fst (get (snd (delete w T k)) T k) = Fulfilled None"
    using assms
    by (simp add: delete_def idb_delete_def get_def idb_get_def getTable_commit
        map_of_remove_record split: if_splits)
qed

theorem update_draws_uuid_delete_uses_id_witness:
  "getTable (opened plain_todos) ''todos'' = Fulfilled plain_todos
   \<and> uuid_calls (opened plain_todos) = 0
   \<and> uuid_calls (snd (update (opened plain_todos) ''todos'' bread)) = Suc 0
   \<and> fst (update (opened plain_todos) ''todos'' bread) = Fulfilled ()
   \<and> fst (get (snd (update (opened plain_todos) ''todos'' bread)) ''todos'' (JStr ''uuid''))
       = Fulfilled (Some bread)
   \<and> uuid_calls (snd (delete (opened plain_todos) ''todos'' (JStr ''u1''))) = 0
   \<and> fst (delete (opened plain_todos) ''todos'' (JStr ''u1'')) = Fulfilled ()
   \<and> fst (get (snd (delete (opened plain_todos) ''todos'' (JStr ''u1''))) ''todos'' (JStr ''u1''))
       = Fulfilled None"
proof -
  have h1: "getTable (opened plain_todos) ''todos'' = Fulfilled plain_todos"
    by (rule getTable_opened)
  have u: "fst (update (opened plain_todos) ''todos'' bread) = Fulfilled ()"
    by (simp add: update_def randomUUID_def getTable_def idb_put_def unique_conflict_def
        opened_def todos_db_def plain_todos_def)
  have d: "fst (delete (opened plain_todos) ''todos'' (JStr ''u1'')) = Fulfilled ()"
    by (simp add: delete_def getTable_def idb_delete_def opened_def todos_db_def plain_todos_def)
  have s: "uuid_source (opened plain_todos) (uuid_calls (opened plain_todos)) = ''uuid''"
    and c: "uuid_calls (opened plain_todos) = 0"
    by (simp_all add: opened_def demo_uuid_def)
  show ?thesis
    using h1 u d s c
      update_draws_uuid_delete_uses_id [OF h1, of bread "JStr ''u1''"]
    by simp
qed

text \<open>
  Claim C4 as stated fails for \<open>delete\<close>: deleting the record at \<open>u1\<close> draws no UUID, and
  it is the record at \<open>u1\<close> that is gone afterwards.
\<close>

theorem delete_draws_no_uuid_counterexample:
  "uuid_calls (snd (delete (opened milk_todos) ''todos'' (JStr ''u1'')))
     = uuid_calls (opened milk_todos)
   \<and> fst (delete (opened milk_todos) ''todos'' (JStr ''u1'')) = Fulfilled ()
   \<and> fst (get (opened milk_todos) ''todos'' (JStr ''u1'')) = Fulfilled (Some milk)
   \<and> fst (get (snd (delete (opened milk_todos) ''todos'' (JStr ''u1''))) ''todos'' (JStr ''u1''))
       = Fulfilled None"
  by (simp add: delete_def idb_delete_def remove_record_def getTable_def commit_def get_def
      idb_get_def opened_def todos_db_def milk_todos_def)

text \<open>
  Claim C8. For a table \<open>T\<close> of the opened store and a valid key \<open>k\<close>, present or absent,
  \<open>delete(T, k)\<close> resolves, and so does a second \<open>delete(T, k)\<close> right after it.
\<close>

theorem delete_idempotent:
  assumes "getTable w T = Fulfilled os"
    and "valid_key k"
  shows "fst (delete w T k) = Fulfilled () \<and>
         fst (delete (snd (delete w T k)) T k) = Fulfilled ()"
  using assms by (simp add: delete_def idb_delete_def getTable_commit)

theorem delete_idempotent_witness:
  "getTable (opened milk_todos) ''todos'' = Fulfilled milk_todos
   \<and> valid_key (JStr ''u9'')
   \<and> map_of (records milk_todos) (JStr ''u9'') = None
   \<and> fst (delete (opened milk_todos) ''todos'' (JStr ''u9'')) = Fulfilled ()
   \<and> fst (delete (snd (delete (opened milk_todos) ''todos'' (JStr ''u9''))) ''todos'' (JStr ''u9''))
       = Fulfilled ()"
proof -
  have h1: "getTable (opened milk_todos) ''todos'' = Fulfilled milk_todos"
    by (rule getTable_opened)
  have h2: "valid_key (JStr ''u9'')" by simp
  have h3: "map_of (records milk_todos) (JStr ''u9'') = None"
    by (simp add: milk_todos_def)
  show ?thesis
    using h1 h2 h3 delete_idempotent [OF h1 h2] by simp
qed

section \<open>Failures\<close>




end
